theory Spec2Isabelle
  imports Main
begin

section \<open>JavaScript values and the built-ins the validator calls\<close>

text \<open>
  The embedding follows \<^verbatim>\<open>packages/alphawave/src/JSONResponseValidator.ts\<close>; the other
  source file, \<^verbatim>\<open>samples/21.teams-questbot/src/index.ts\<close>, wires an HTTP server to a bot
  adapter and computes nothing.
  A value of static type \<^verbatim>\<open>any\<close> is a \<open>jsvalue\<close>; a string is a list of code units
  below 256; an object is the list of its own enumerable properties in enumeration
  order. Functions, symbols and objects that carry their own \<^verbatim>\<open>toString\<close> or \<^verbatim>\<open>toJSON\<close>
  are outside the model.
\<close>

text \<open>
  The modelled code reads a number only through the text that \<^verbatim>\<open>ToString\<close> writes for
  it (\<^verbatim>\<open>toString()\<close>, \<^verbatim>\<open>join\<close> and, for a finite number, \<^verbatim>\<open>JSON.stringify\<close>). A finite number
  is therefore kept as that text, for instance \<^verbatim>\<open>12\<close>, \<^verbatim>\<open>-0.5\<close> or \<^verbatim>\<open>1e+21\<close>; the three
  numbers that are not finite are values of their own. No theorem depends on which texts
  are texts of numbers.
\<close>

datatype js_number = Finite string | NaN | PosInfinity | NegInfinity

datatype jsvalue =
    JUndefined
  | JNull
  | JBoolean bool
  | JNumber js_number
  | JString string
  | JArray "jsvalue list"
  | JObject "(string \<times> jsvalue) list"

text \<open>The only exception the modelled code can raise is a \<^verbatim>\<open>TypeError\<close>
  (a property read or a method call on \<^verbatim>\<open>undefined\<close>).\<close>

datatype js_error = TypeError

text \<open>\<^verbatim>\<open>typeof v\<close>, for the values of the model.\<close>

datatype js_type = TyUndefined | TyObject | TyBoolean | TyNumber | TyString

fun typeof :: "jsvalue \<Rightarrow> js_type" where
  "typeof JUndefined = TyUndefined"
| "typeof JNull = TyObject"
| "typeof (JBoolean b) = TyBoolean"
| "typeof (JNumber n) = TyNumber"
| "typeof (JString s) = TyString"
| "typeof (JArray xs) = TyObject"
| "typeof (JObject kvs) = TyObject"

text \<open>\<^verbatim>\<open>Array.prototype.join\<close> on strings: the pieces with the separator between them.\<close>

fun join :: "string \<Rightarrow> string list \<Rightarrow> string" where
  "join sep [] = []"
| "join sep [x] = x"
| "join sep (x # y # ys) = x @ sep @ join sep (y # ys)"

text \<open>\<^verbatim>\<open>Number.prototype.toString\<close>, with no radix.\<close>

fun numberToString :: "js_number \<Rightarrow> string" where
  "numberToString (Finite digits) = digits"
| "numberToString NaN = ''NaN''"
| "numberToString PosInfinity = ''Infinity''"
| "numberToString NegInfinity = ''-Infinity''"

definition booleanToString :: "bool \<Rightarrow> string" where
  "booleanToString b = (if b then ''true'' else ''false'')"

text \<open>
  What \<^verbatim>\<open>join\<close> writes for one element of an array: nothing for \<^verbatim>\<open>undefined\<close> and
  \<^verbatim>\<open>null\<close>, otherwise the element's \<^verbatim>\<open>ToString\<close>; a nested array is joined by commas
  in turn and a plain object is \<^verbatim>\<open>[object Object]\<close>.
\<close>

fun joinElement :: "jsvalue \<Rightarrow> string" where
  "joinElement JUndefined = []"
| "joinElement JNull = []"
| "joinElement (JBoolean b) = booleanToString b"
| "joinElement (JNumber n) = numberToString n"
| "joinElement (JString s) = s"
| "joinElement (JArray xs) = join '','' (map joinElement xs)"
| "joinElement (JObject kvs) = ''[object Object]''"

text \<open>\<^verbatim>\<open>JSON.stringify\<close>: the quoting of a string, then the text of a value.\<close>

definition hexDigit :: "nat \<Rightarrow> char" where
  "hexDigit d = ''0123456789abcdef'' ! d"

definition quoteChar :: "char \<Rightarrow> string" where
  "quoteChar c =
     (if c = CHR 0x22 then [CHR 0x5C, CHR 0x22]
      else if c = CHR 0x5C then [CHR 0x5C, CHR 0x5C]
      else if c = CHR 0x08 then [CHR 0x5C, CHR ''b'']
      else if c = CHR 0x0C then [CHR 0x5C, CHR ''f'']
      else if c = CHR 0x0A then [CHR 0x5C, CHR ''n'']
      else if c = CHR 0x0D then [CHR 0x5C, CHR ''r'']
      else if c = CHR 0x09 then [CHR 0x5C, CHR ''t'']
      else if of_char c < (32 :: nat)
        then [CHR 0x5C, CHR ''u'', CHR ''0'', CHR ''0'',
              hexDigit (of_char c div 16), hexDigit (of_char c mod 16)]
      else [c])"

definition quoteJSONString :: "string \<Rightarrow> string" where
  "quoteJSONString s = [CHR 0x22] @ concat (map quoteChar s) @ [CHR 0x22]"

text \<open>
  A number that is not finite is written \<^verbatim>\<open>null\<close>. In an array \<^verbatim>\<open>undefined\<close> is written
  \<^verbatim>\<open>null\<close>; in an object a property whose value is \<^verbatim>\<open>undefined\<close> is left out.
\<close>

fun JSON_stringify :: "jsvalue \<Rightarrow> string" where
  "JSON_stringify JUndefined = ''null''"
| "JSON_stringify JNull = ''null''"
| "JSON_stringify (JBoolean b) = booleanToString b"
| "JSON_stringify (JNumber (Finite digits)) = digits"
| "JSON_stringify (JNumber n) = ''null''"
| "JSON_stringify (JString s) = quoteJSONString s"
| "JSON_stringify (JArray xs) = ''['' @ join '','' (map JSON_stringify xs) @ '']''"
| "JSON_stringify (JObject kvs) =
     ''{'' @ join '',''
        (map (\<lambda>kv. quoteJSONString (fst kv) @ '':'' @ JSON_stringify (snd kv))
           (filter (\<lambda>kv. snd kv \<noteq> JUndefined) kvs)) @ ''}''"

text \<open>
  \<^verbatim>\<open>String.prototype.split\<close> with a one-character separator (the pieces between the
  separators, at least one piece), and \<^verbatim>\<open>String.prototype.trim\<close>.
\<close>

fun split :: "char \<Rightarrow> string \<Rightarrow> string list" where
  "split sep [] = [[]]"
| "split sep (c # cs) =
     (if c = sep then [] # split sep cs
      else (case split sep cs of
              [] \<Rightarrow> [[c]]
            | p # ps \<Rightarrow> (c # p) # ps))"

definition isWhiteSpace :: "char \<Rightarrow> bool" where
  "isWhiteSpace c \<longleftrightarrow> c \<in> set [CHR 0x09, CHR 0x0A, CHR 0x0B, CHR 0x0C, CHR 0x0D, CHR 0x20, CHR 0xA0]"

definition trim :: "string \<Rightarrow> string" where
  "trim s = rev (dropWhile isWhiteSpace (rev (dropWhile isWhiteSpace s)))"

text \<open>Reading index \<open>i\<close> of an array: \<^verbatim>\<open>undefined\<close> (here \<open>None\<close>) out of range.\<close>

definition at_index :: "'a list \<Rightarrow> nat \<Rightarrow> 'a option" where
  "at_index xs i = (if i < length xs then Some (xs ! i) else None)"

section \<open>The types of the validator\<close>

text \<open>A \<^verbatim>\<open>ValidationError\<close> of the schema library, with the fields the code reads.\<close>

record ValidationError =
  name :: string
  property :: string
  message :: string
  argument :: jsvalue

text \<open>A \<^verbatim>\<open>ValidatorResult\<close> of the schema library, with the fields the code reads.\<close>

record ValidatorResult =
  valid :: bool
  errors :: "ValidationError list"

text \<open>
  A \<^verbatim>\<open>Validation\<close> is \<^verbatim>\<open>{type: 'Validation', valid: true, value}\<close> or
  \<^verbatim>\<open>{type: 'Validation', valid: false, feedback}\<close>.
\<close>

datatype Validation = Valid jsvalue | Invalid string

text \<open>
  The message of a response is a string or a \<^verbatim>\<open>Message\<close> object, whose content is a
  string, \<^verbatim>\<open>null\<close> or absent.
\<close>

datatype content = ContentUndefined | ContentNull | ContentString string

record Message =
  role :: string
  content :: content

datatype message = StringMessage string | ObjectMessage Message

record PromptResponse =
  status :: string
  message :: message

text \<open>The fields of a \<^verbatim>\<open>JSONResponseValidator\<close>; all are read-only.\<close>

record 'schema JSONResponseValidator =
  errorFeedback :: string
  instanceName :: "string option"
  missingJsonFeedback :: string
  schema :: "'schema option"

text \<open>
  The constructor: \<^verbatim>\<open>??\<close> replaces an absent feedback string by its default, and
  \<^verbatim>\<open>instanceName\<close> is accepted but not stored.
\<close>

definition new_JSONResponseValidator ::
  "'schema option \<Rightarrow> string option \<Rightarrow> string option \<Rightarrow> string option
     \<Rightarrow> 'schema JSONResponseValidator" where
  "new_JSONResponseValidator schema' missingJsonFeedback' errorFeedback' instanceName' =
     \<lparr> errorFeedback = (case errorFeedback' of
          None \<Rightarrow> ''The JSON returned had errors. Apply these fixes:''
        | Some s \<Rightarrow> s),
       instanceName = None,
       missingJsonFeedback = (case missingJsonFeedback' of
          None \<Rightarrow> ''No valid JSON objects were found in the response. Return a valid JSON object.''
        | Some s \<Rightarrow> s),
       schema = schema' \<rparr>"

text \<open>
  The code the validator calls and that is not part of this file: the two static helpers
  \<^verbatim>\<open>Response.parseAllObjects\<close> and \<^verbatim>\<open>Response.removeEmptyValuesFromObject\<close>, and
  \<^verbatim>\<open>Validator.validate\<close> of the schema library. They are parameters of the model: every
  theorem below holds for whatever they compute.
\<close>

record 'schema collaborators =
  parseAllObjects :: "string \<Rightarrow> jsvalue list"
  removeEmptyValuesFromObject :: "jsvalue \<Rightarrow> jsvalue"
  validate :: "jsvalue \<Rightarrow> 'schema \<Rightarrow> ValidatorResult"

section \<open>\<^verbatim>\<open>getErrorFix\<close>\<close>

text \<open>The method call \<^verbatim>\<open>v.toString()\<close>: a \<^verbatim>\<open>TypeError\<close> on \<^verbatim>\<open>undefined\<close> and \<^verbatim>\<open>null\<close>.\<close>

fun toString :: "jsvalue \<Rightarrow> js_error + string" where
  "toString JUndefined = Inl TypeError"
| "toString JNull = Inl TypeError"
| "toString (JBoolean b) = Inr (booleanToString b)"
| "toString (JNumber n) = Inr (numberToString n)"
| "toString (JString s) = Inr s"
| "toString (JArray xs) = Inr (join '','' (map joinElement xs))"
| "toString (JObject kvs) = Inr ''[object Object]''"

text \<open>
  The first statement of \<^verbatim>\<open>getErrorFix\<close>, which computes the local \<^verbatim>\<open>arg\<close>:
  \<^verbatim>\<open>join(',')\<close> for an array, \<^verbatim>\<open>JSON.stringify\<close> for any other value whose \<^verbatim>\<open>typeof\<close> is
  \<^verbatim>\<open>'object'\<close>, and \<^verbatim>\<open>toString()\<close> for the rest.
\<close>

definition argumentString :: "jsvalue \<Rightarrow> js_error + string" where
  "argumentString a =
     (case a of
        JArray xs \<Rightarrow> Inr (join '','' (map joinElement xs))
      | _ \<Rightarrow> if typeof a = TyObject then Inr (JSON_stringify a) else toString a)"

text \<open>The \<^verbatim>\<open>switch\<close> on \<^verbatim>\<open>error.name\<close>, once \<^verbatim>\<open>arg\<close> is computed.\<close>

definition errorFixLine :: "ValidationError \<Rightarrow> string \<Rightarrow> js_error + string" where
  \<open>errorFixLine error arg =
     (if name error = ''type'' then
        Inr (''convert "'' @ property error @ ''" to a '' @ arg)
      else if name error = ''anyOf'' then
        Inr (''convert "'' @ property error @ ''" to one of the allowed types: '' @ arg)
      else if name error = ''additionalProperties'' then
        Inr (''remove the "'' @ arg @ ''" property from "'' @ property error @ ''"'')
      else if name error = ''required'' then
        Inr (''add the "'' @ arg @ ''" property to "'' @ property error @ ''"'')
      else if name error = ''format'' then
        Inr (''change the "'' @ property error @ ''" property to be a '' @ arg)
      else if name error = ''uniqueItems'' then
        Inr (''remove all duplicate items from "'' @ property error @ ''"'')
      else if name error = ''enum'' then
        (case at_index (split CHR '':'' (ValidationError.message error)) 1 of
           None \<Rightarrow> Inl TypeError
         | Some piece \<Rightarrow>
             Inr (''change the "'' @ property error
                  @ ''" property to be one of these values: '' @ trim piece))
      else if name error = ''const'' then
        Inr (''change the "'' @ property error @ ''" property to be '' @ arg)
      else
        Inr (''"'' @ property error @ ''" '' @ ValidationError.message error @ ''. Fix that''))\<close>

definition getErrorFix :: "ValidationError \<Rightarrow> js_error + string" where
  "getErrorFix error =
     (case argumentString (argument error) of
        Inl x \<Rightarrow> Inl x
      | Inr arg \<Rightarrow> errorFixLine error arg)"

text \<open>\<^verbatim>\<open>errors.map(e => this.getErrorFix(e))\<close>: the first exception ends the map.\<close>

fun mapErrorFix :: "ValidationError list \<Rightarrow> js_error + string list" where
  "mapErrorFix [] = Inr []"
| "mapErrorFix (e # es) =
     (case getErrorFix e of
        Inl x \<Rightarrow> Inl x
      | Inr line \<Rightarrow>
          (case mapErrorFix es of
             Inl x \<Rightarrow> Inl x
           | Inr lines \<Rightarrow> Inr (line # lines)))"

section \<open>\<^verbatim>\<open>validateResponse\<close>\<close>

text \<open>The text that is parsed: the message itself, or its content, or the empty string.\<close>

definition responseText :: "message \<Rightarrow> string" where
  "responseText m =
     (case m of
        StringMessage s \<Rightarrow> s
      | ObjectMessage msg \<Rightarrow>
          (case content msg of ContentString s \<Rightarrow> s | _ \<Rightarrow> []))"

text \<open>\<^verbatim>\<open>typeof message === 'object' && message.content === null\<close>.\<close>

definition hasNullContent :: "message \<Rightarrow> bool" where
  "hasNullContent m =
     (case m of
        StringMessage s \<Rightarrow> False
      | ObjectMessage msg \<Rightarrow> content msg = ContentNull)"

text \<open>
  The \<^verbatim>\<open>for\<close> loop over \<^verbatim>\<open>i = parsed.length - 1, ..., 0\<close>. The counter of the model is
  \<open>i + 1\<close>, so that \<open>0\<close> is the loop's exit. The loop either returns the cleaned object it
  found valid or falls through with the local \<^verbatim>\<open>errors\<close> (\<open>None\<close> is \<^verbatim>\<open>undefined\<close>; an
  array, also an empty one, is truthy). Beside the outcome the model keeps the list of the
  objects handed to \<^verbatim>\<open>validator.validate\<close>, in call order.
\<close>

datatype loop_exit = Returned jsvalue | FellThrough "ValidationError list option"

fun scanCandidates ::
  "'schema collaborators \<Rightarrow> 'schema \<Rightarrow> jsvalue list \<Rightarrow> nat
     \<Rightarrow> ValidationError list option \<Rightarrow> jsvalue list \<Rightarrow> jsvalue list \<times> loop_exit" where
  "scanCandidates env sch parsed 0 errs validated = (validated, FellThrough errs)"
| "scanCandidates env sch parsed (Suc i) errs validated =
     (let obj = removeEmptyValuesFromObject env (parsed ! i);
          result = validate env obj sch
      in if valid result then (validated @ [obj], Returned obj)
         else scanCandidates env sch parsed i
                (if errs = None then Some (errors result) else errs)
                (validated @ [obj]))"

definition validateResponse ::
  "'schema collaborators \<Rightarrow> 'schema JSONResponseValidator \<Rightarrow> 'memory \<Rightarrow> 'functions
     \<Rightarrow> 'tokenizer \<Rightarrow> PromptResponse \<Rightarrow> int \<Rightarrow> js_error + Validation" where
  "validateResponse env this memory functions tokenizer response remaining_attempts =
     (let message = PromptResponse.message response;
          text = responseText message;
          parsed = parseAllObjects env text
      in if length parsed = 0 then
           (if hasNullContent message then Inr (Valid JNull)
            else Inr (Invalid (missingJsonFeedback this)))
         else
           (case schema this of
              Some sch \<Rightarrow>
                (case snd (scanCandidates env sch parsed (length parsed) None []) of
                   Returned obj \<Rightarrow> Inr (Valid obj)
                 | FellThrough None \<Rightarrow> Inl TypeError
                 | FellThrough (Some errs) \<Rightarrow>
                     (case mapErrorFix errs of
                        Inl x \<Rightarrow> Inl x
                      | Inr lines \<Rightarrow>
                          Inr (Invalid (errorFeedback this @ [CHR 0x0A]
                                        @ join [CHR 0x0A] lines))))
            | None \<Rightarrow> Inr (Valid (parsed ! (length parsed - 1)))))"

section \<open>Sample collaborators, for the closed instances\<close>

text \<open>
  Modelled from the spec: \<^verbatim>\<open>Response.parseAllObjects\<close> is not among the sources. The spec
  has it extract the JSON objects of a text in order of appearance; this sample does so
  on the texts of the closed instances below and finds no object in any other text.
\<close>

definition sample_parseAllObjects :: "string \<Rightarrow> jsvalue list" where
  \<open>sample_parseAllObjects text =
     (if text = ''{"a":1} and then {"a":2}'' then
        [JObject [(''a'', JNumber (Finite ''1''))], JObject [(''a'', JNumber (Finite ''2''))]]
      else if text = ''{"id":1} {"id":2,"meta":{}} {"nope":3}'' then
        [JObject [(''id'', JNumber (Finite ''1''))],
         JObject [(''id'', JNumber (Finite ''2'')), (''meta'', JObject [])],
         JObject [(''nope'', JNumber (Finite ''3''))]]
      else if text = ''{"id":1} {"kind":"x"}'' then
        [JObject [(''id'', JNumber (Finite ''1''))], JObject [(''kind'', JString ''x'')]]
      else if text = ''{"tags":["a","a"]}'' then
        [JObject [(''tags'', JArray [JString ''a'', JString ''a''])]]
      else [])\<close>

text \<open>
  Modelled from the spec: \<^verbatim>\<open>Response.removeEmptyValuesFromObject\<close> is not among the
  sources. The spec has it strip the object-valued properties that are empty; this
  sample drops the properties of an object whose value is the empty object.
\<close>

fun sample_removeEmptyValuesFromObject :: "jsvalue \<Rightarrow> jsvalue" where
  "sample_removeEmptyValuesFromObject (JObject kvs) =
     JObject (filter (\<lambda>kv. snd kv \<noteq> JObject []) kvs)"
| "sample_removeEmptyValuesFromObject v = v"

text \<open>
  A sample of the schema library. Its schema is the list of the property names an object
  must have, and for each missing one it reports what the library reports for
  \<^verbatim>\<open>required\<close>; with \<open>unique\<close> set it also reports what the library reports for an
  array-valued property with a repeated item under \<^verbatim>\<open>uniqueItems\<close>: a descriptor without
  an argument.
\<close>

record sample_schema =
  required :: "string list"
  unique :: bool

fun ownKeys :: "jsvalue \<Rightarrow> string list" where
  "ownKeys (JObject kvs) = map fst kvs"
| "ownKeys v = []"

fun repeatedItems :: "jsvalue \<Rightarrow> (string \<times> jsvalue) list" where
  "repeatedItems (JObject kvs) =
     filter (\<lambda>kv. case snd kv of JArray xs \<Rightarrow> \<not> distinct xs | _ \<Rightarrow> False) kvs"
| "repeatedItems v = []"

definition sample_validate :: "jsvalue \<Rightarrow> sample_schema \<Rightarrow> ValidatorResult" where
  \<open>sample_validate instance sch =
     (let missing = filter (\<lambda>r. r \<notin> set (ownKeys instance)) (required sch);
          repeated = (if unique sch then repeatedItems instance else []);
          errs =
            map (\<lambda>r. \<lparr> name = ''required'', property = ''instance'',
                       message = ''requires property "'' @ r @ ''"'',
                       argument = JString r \<rparr>) missing
            @ map (\<lambda>kv. \<lparr> name = ''uniqueItems'', property = ''instance.'' @ fst kv,
                       message = ''contains duplicate item'',
                       argument = JUndefined \<rparr>) repeated
      in \<lparr> valid = (errs = []), errors = errs \<rparr>)\<close>

definition sample_env :: "sample_schema collaborators" where
  "sample_env =
     \<lparr> parseAllObjects = sample_parseAllObjects,
       removeEmptyValuesFromObject = sample_removeEmptyValuesFromObject,
       validate = sample_validate \<rparr>"

section \<open>The wording of the rendering claim\<close>


section \<open>The \<^verbatim>\<open>Validator\<close> instance as an object with state\<close>

text \<open>
  Above, \<^verbatim>\<open>validator.validate\<close> is a function of the object and the schema. For calls in
  sequence that is dropped: \<^verbatim>\<open>validate\<close> is a method of a \<^verbatim>\<open>Validator\<close> instance, it may read
  and change the state of its instance, and what it answers may depend on that state.
  \<open>new_Validator\<close> is the state of the instance that \<^verbatim>\<open>new Validator()\<close> creates. The two
  static helpers of \<^verbatim>\<open>Response\<close> stay functions of their argument, as the spec has them.
\<close>

record ('schema, 'instance) instance_collaborators =
  Response_parseAllObjects :: "string \<Rightarrow> jsvalue list"
  Response_removeEmptyValuesFromObject :: "jsvalue \<Rightarrow> jsvalue"
  new_Validator :: "'instance"
  Validator_validate :: "'instance \<Rightarrow> jsvalue \<Rightarrow> 'schema \<Rightarrow> ValidatorResult \<times> 'instance"

text \<open>
  The loop again, with the state of the instance passed from one \<^verbatim>\<open>validate\<close> to the next
  and returned at the exit.
\<close>

fun scanCandidates_st ::
  "('schema, 'instance) instance_collaborators \<Rightarrow> 'schema \<Rightarrow> jsvalue list \<Rightarrow> nat
     \<Rightarrow> ValidationError list option \<Rightarrow> 'instance \<Rightarrow> loop_exit \<times> 'instance" where
  "scanCandidates_st env sch parsed 0 errs validator = (FellThrough errs, validator)"
| "scanCandidates_st env sch parsed (Suc i) errs validator =
     (let obj = Response_removeEmptyValuesFromObject env (parsed ! i);
          (result, validator') = Validator_validate env validator obj sch
      in if valid result then (Returned obj, validator')
         else scanCandidates_st env sch parsed i
                (if errs = None then Some (errors result) else errs) validator')"

text \<open>
  \<^verbatim>\<open>validateResponse\<close> as a method call on the validator object: it returns its result and
  the object as the call leaves it. The method assigns to no field; the \<^verbatim>\<open>Validator\<close>
  instance is created inside the call (line 62) and dropped at its end.
\<close>

definition validateResponse_st ::
  "('schema, 'instance) instance_collaborators \<Rightarrow> 'schema JSONResponseValidator \<Rightarrow> 'memory
     \<Rightarrow> 'functions \<Rightarrow> 'tokenizer \<Rightarrow> PromptResponse \<Rightarrow> int
     \<Rightarrow> (js_error + Validation) \<times> 'schema JSONResponseValidator" where
  "validateResponse_st env this memory functions tokenizer response remaining_attempts =
     (let message = PromptResponse.message response;
          text = responseText message;
          parsed = Response_parseAllObjects env text
      in if length parsed = 0 then
           (if hasNullContent message then (Inr (Valid JNull), this)
            else (Inr (Invalid (missingJsonFeedback this)), this))
         else
           (case schema this of
              Some sch \<Rightarrow>
                (let validator = new_Validator env
                 in case fst (scanCandidates_st env sch parsed (length parsed) None validator) of
                      Returned obj \<Rightarrow> (Inr (Valid obj), this)
                    | FellThrough None \<Rightarrow> (Inl TypeError, this)
                    | FellThrough (Some errs) \<Rightarrow>
                        (case mapErrorFix errs of
                           Inl x \<Rightarrow> (Inl x, this)
                         | Inr lines \<Rightarrow>
                             (Inr (Invalid (errorFeedback this @ [CHR 0x0A]
                                            @ join [CHR 0x0A] lines)), this)))
            | None \<Rightarrow> (Inr (Valid (parsed ! (length parsed - 1))), this)))"

text \<open>A validator without state, as an instance whose state is the unit.\<close>

definition stateless :: "'schema collaborators \<Rightarrow> ('schema, unit) instance_collaborators" where
  "stateless env =
     \<lparr> Response_parseAllObjects = parseAllObjects env,
       Response_removeEmptyValuesFromObject = removeEmptyValuesFromObject env,
       new_Validator = (),
       Validator_validate = (\<lambda>validator obj sch. (validate env obj sch, validator)) \<rparr>"

text \<open>
  A sample instance with state: it remembers the objects it has validated and reports an
  object it has seen before as invalid; a new object it validates as \<open>sample_validate\<close>
  does.
\<close>

definition sample_instance_validate ::
  "jsvalue list \<Rightarrow> jsvalue \<Rightarrow> sample_schema \<Rightarrow> ValidatorResult \<times> jsvalue list" where
  "sample_instance_validate seen obj sch =
     (if obj \<in> set seen then
        (\<lparr> valid = False,
           errors = [\<lparr> name = ''seen'', property = ''instance'',
                       message = ''was validated before'', argument = JBoolean True \<rparr>] \<rparr>,
         seen)
      else (sample_validate obj sch, obj # seen))"

definition sample_instance_env :: "(sample_schema, jsvalue list) instance_collaborators" where
  "sample_instance_env =
     \<lparr> Response_parseAllObjects = sample_parseAllObjects,
       Response_removeEmptyValuesFromObject = sample_removeEmptyValuesFromObject,
       new_Validator = [],
       Validator_validate = sample_instance_validate \<rparr>"

section \<open>The loop\<close>

lemma scanCandidates_none_valid:
  assumes "n \<le> length parsed"
    and "\<forall>j<n. \<not> valid (validate env (removeEmptyValuesFromObject env (parsed ! j)) sch)"
  shows "scanCandidates env sch parsed n errs validated =
           (validated @ map (removeEmptyValuesFromObject env) (rev (take n parsed)),
            FellThrough
              (if errs = None \<and> 0 < n
               then Some (errors (validate env
                            (removeEmptyValuesFromObject env (parsed ! (n - 1))) sch))
               else errs))"
  using assms
proof (induction n arbitrary: errs validated)
  case 0
  then show ?case by simp
next
  case (Suc i)
  have i: "i < length parsed" using Suc.prems(1) by simp
  have inv: "\<not> valid (validate env (removeEmptyValuesFromObject env (parsed ! i)) sch)"
    using Suc.prems(2) by simp
  have rest: "\<forall>j<i. \<not> valid (validate env (removeEmptyValuesFromObject env (parsed ! j)) sch)"
    using Suc.prems(2) by simp
  have tk: "rev (take (Suc i) parsed) = parsed ! i # rev (take i parsed)"
    using i by (simp add: take_Suc_conv_app_nth)
  show ?case
    using Suc.IH [OF _ rest] i inv tk by (simp add: Let_def)
qed

lemma scanCandidates_first_valid:
  assumes "n \<le> length parsed" and "m < n"
    and "valid (validate env (removeEmptyValuesFromObject env (parsed ! m)) sch)"
    and "\<forall>j. m < j \<and> j < n \<longrightarrow>
           \<not> valid (validate env (removeEmptyValuesFromObject env (parsed ! j)) sch)"
  shows "scanCandidates env sch parsed n errs validated =
           (validated @ map (removeEmptyValuesFromObject env) (rev (drop m (take n parsed))),
            Returned (removeEmptyValuesFromObject env (parsed ! m)))"
  using assms
proof (induction n arbitrary: errs validated)
  case 0
  then show ?case by simp
next
  case (Suc i)
  have i: "i < length parsed" using Suc.prems(1) by simp
  have tk: "take (Suc i) parsed = take i parsed @ [parsed ! i]"
    using i by (simp add: take_Suc_conv_app_nth)
  show ?case
  proof (cases "m = i")
    case True
    have "drop m (take (Suc i) parsed) = [parsed ! i]"
      using True i tk by simp
    then show ?thesis using True Suc.prems(3) by (simp add: Let_def)
  next
    case False
    then have mi: "m < i" using Suc.prems(2) by simp
    have inv: "\<not> valid (validate env (removeEmptyValuesFromObject env (parsed ! i)) sch)"
      using Suc.prems(4) mi by simp
    have rest: "\<forall>j. m < j \<and> j < i \<longrightarrow>
        \<not> valid (validate env (removeEmptyValuesFromObject env (parsed ! j)) sch)"
      using Suc.prems(4) by simp
    have dr: "drop m (take (Suc i) parsed) = drop m (take i parsed) @ [parsed ! i]"
      using tk mi i by simp
    have le: "i \<le> length parsed" using i by simp
    show ?thesis
      using Suc.IH [OF le mi Suc.prems(3) rest] inv dr by (simp add: Let_def)
  qed
qed

text \<open>
  When the loop falls through, the errors it leaves are the ones it started with or those
  of a candidate it validated; started with \<^verbatim>\<open>undefined\<close> and run at least once, it does
  not leave \<^verbatim>\<open>undefined\<close>.
\<close>

lemma scanCandidates_fell_through:
  "snd (scanCandidates env sch parsed n errs validated) = FellThrough r \<Longrightarrow>
     r = errs \<or> (\<exists>j<n. r = Some (errors (validate env
                                  (removeEmptyValuesFromObject env (parsed ! j)) sch)))"
proof (induction n arbitrary: errs validated)
  case 0
  then show ?case by simp
next
  case (Suc i)
  let ?res = "validate env (removeEmptyValuesFromObject env (parsed ! i)) sch"
  from Suc.prems have inv: "\<not> valid ?res"
    by (auto simp add: Let_def split: if_splits)
  with Suc.prems have
    "snd (scanCandidates env sch parsed i (if errs = None then Some (errors ?res) else errs)
            (validated @ [removeEmptyValuesFromObject env (parsed ! i)])) = FellThrough r"
    by (simp add: Let_def)
  from Suc.IH [OF this] show ?case
    by (auto split: if_splits intro: less_SucI)
qed

lemma scanCandidates_not_undefined:
  assumes "snd (scanCandidates env sch parsed n None validated) = FellThrough None"
  shows "n = 0"
proof (cases n)
  case 0
  then show ?thesis by simp
next
  case (Suc i)
  let ?res = "validate env (removeEmptyValuesFromObject env (parsed ! i)) sch"
  from assms Suc have inv: "\<not> valid ?res"
    by (auto simp add: Let_def split: if_splits)
  with assms Suc have
    "snd (scanCandidates env sch parsed i (Some (errors ?res))
            (validated @ [removeEmptyValuesFromObject env (parsed ! i)])) = FellThrough None"
    by (simp add: Let_def)
  from scanCandidates_fell_through [OF this] show ?thesis by auto
qed

section \<open>The feedback lines\<close>

lemma js_error_unique: "(x :: js_error) = y"
  by (cases x, cases y) simp

lemma split_not_Nil: "split sep s \<noteq> []"
  by (induction s) (auto split: list.splits)

lemma split_without_separator: "sep \<notin> set s \<Longrightarrow> split sep s = [s]"
  by (induction s) auto

lemma hd_split: "hd (split sep s) = takeWhile (\<lambda>c. c \<noteq> sep) s"
  by (induction s) (auto simp add: split_not_Nil split: list.splits)

lemma split_at_first_separator:
  "sep \<notin> set pre \<Longrightarrow> split sep (pre @ sep # rest) = pre # split sep rest"
  by (induction pre) auto

lemma second_piece:
  assumes "sep \<notin> set pre"
  shows "at_index (split sep (pre @ sep # rest)) 1 = Some (takeWhile (\<lambda>c. c \<noteq> sep) rest)"
proof -
  obtain p ps where ps: "split sep rest = p # ps"
    using split_not_Nil [of sep rest] by (cases "split sep rest") auto
  have "p = takeWhile (\<lambda>c. c \<noteq> sep) rest"
    using hd_split [of sep rest] ps by simp
  then show ?thesis
    using split_at_first_separator [OF assms, of rest] ps by (simp add: at_index_def)
qed

lemma no_second_piece:
  "sep \<notin> set s \<Longrightarrow> at_index (split sep s) 1 = None"
  by (simp add: split_without_separator at_index_def)

text \<open>
  The \<^verbatim>\<open>enum\<close> case takes piece 1 of the message split at \<^verbatim>\<open>:\<close>, that is the text
  between the first colon and the second one (or the end); without a colon there is no
  piece 1 and \<^verbatim>\<open>trim\<close> is called on \<^verbatim>\<open>undefined\<close>.
\<close>

lemma enum_fix_between_colons:
  assumes "name e = ''enum''"
    and "argumentString (argument e) = Inr arg"
    and "ValidationError.message e = pre @ CHR '':'' # rest"
    and "CHR '':'' \<notin> set pre"
  shows \<open>getErrorFix e =
           Inr (''change the "'' @ property e @ ''" property to be one of these values: ''
                @ trim (takeWhile (\<lambda>c. c \<noteq> CHR '':'') rest))\<close>
  using assms second_piece [OF assms(4), of rest]
  by (simp add: getErrorFix_def errorFixLine_def)

lemma enum_fix_without_colon:
  assumes "name e = ''enum''"
    and "CHR '':'' \<notin> set (ValidationError.message e)"
  shows "getErrorFix e = Inl TypeError"
  using assms no_second_piece [OF assms(2)]
  by (cases "argumentString (argument e)")
     (auto simp add: getErrorFix_def errorFixLine_def js_error_unique)

text \<open>
  \<^verbatim>\<open>getErrorFix\<close> raises in two cases only: the descriptor has no argument, or it is an
  \<^verbatim>\<open>enum\<close> descriptor whose message has no colon.
\<close>

lemma argumentString_raises_iff: "argumentString a = Inl TypeError \<longleftrightarrow> a = JUndefined"
  by (cases a) (auto simp add: argumentString_def js_error_unique)

lemma getErrorFix_raises_iff:
  "getErrorFix e = Inl TypeError \<longleftrightarrow>
     argument e = JUndefined
     \<or> (name e = ''enum'' \<and> CHR '':'' \<notin> set (ValidationError.message e))"
proof (cases "argumentString (argument e)")
  case (Inl a)
  then show ?thesis
    using argumentString_raises_iff [of "argument e"] js_error_unique [of a TypeError]
    by (simp add: getErrorFix_def)
next
  case (Inr arg)
  then have nu: "argument e \<noteq> JUndefined"
    using argumentString_raises_iff [of "argument e"] by auto
  show ?thesis
  proof (cases "name e = ''enum''")
    case False
    then show ?thesis using Inr nu by (simp add: getErrorFix_def errorFixLine_def)
  next
    case True
    show ?thesis
    proof (cases "CHR '':'' \<in> set (ValidationError.message e)")
      case False
      then show ?thesis using True enum_fix_without_colon [of e] nu by auto
    next
      case c: True
      then obtain pre rest where "ValidationError.message e = pre @ CHR '':'' # rest"
        and "CHR '':'' \<notin> set pre"
        using split_list_first [of "CHR '':''" "ValidationError.message e"] by auto
      then show ?thesis
        using enum_fix_between_colons [OF True Inr] c nu by simp
    qed
  qed
qed

lemma mapErrorFix_lines:
  "mapErrorFix es = Inr lines \<longleftrightarrow>
     length lines = length es \<and> (\<forall>i<length es. getErrorFix (es ! i) = Inr (lines ! i))"
proof (induction es arbitrary: lines)
  case Nil
  then show ?case by auto
next
  case (Cons e es)
  show ?case
  proof (cases lines)
    case Nil
    then show ?thesis by (auto split: sum.splits)
  next
    case (Cons l ls)
    have "mapErrorFix (e # es) = Inr (l # ls) \<longleftrightarrow>
            getErrorFix e = Inr l \<and> mapErrorFix es = Inr ls"
      by (auto split: sum.splits)
    also have "\<dots> \<longleftrightarrow> getErrorFix e = Inr l \<and> length ls = length es
                 \<and> (\<forall>i<length es. getErrorFix (es ! i) = Inr (ls ! i))"
      using Cons.IH [of ls] by simp
    also have "\<dots> \<longleftrightarrow> length (l # ls) = length (e # es)
                 \<and> (\<forall>i<length (e # es). getErrorFix ((e # es) ! i) = Inr ((l # ls) ! i))"
      by (auto simp add: nth_Cons split: nat.splits)
    finally show ?thesis using Cons by simp
  qed
qed

lemma mapErrorFix_raises:
  "mapErrorFix es = Inl TypeError \<longleftrightarrow> (\<exists>e \<in> set es. getErrorFix e = Inl TypeError)"
  by (induction es) (auto split: sum.splits simp add: js_error_unique)

section \<open>Joining, and the validator without state\<close>



text \<open>
  With a validator without state the method call computes what \<open>validateResponse\<close>
  computes.
\<close>

lemma scanCandidates_st_stateless:
  "fst (scanCandidates_st (stateless env) sch parsed k errs ()) =
   snd (scanCandidates env sch parsed k errs validated)"
  by (induction k arbitrary: errs validated) (simp_all add: stateless_def Let_def)

lemma validateResponse_st_stateless:
  "fst (validateResponse_st (stateless env) this memory functions tokenizer response n) =
   validateResponse env this memory functions tokenizer response n"
proof -
  have p: "Response_parseAllObjects (stateless env) = parseAllObjects env"
    and v: "new_Validator (stateless env) = ()"
    by (simp_all add: stateless_def)
  show ?thesis
    unfolding validateResponse_st_def validateResponse_def Let_def p v
      scanCandidates_st_stateless [where validated = "[]"]
    by (simp split: option.splits loop_exit.splits sum.splits)
qed

section \<open>What \<^verbatim>\<open>validateResponse\<close> returns\<close>

text \<open>
  C1. With a schema configured and at least one extracted object, the candidates are
  taken from the last one backward, each is stripped by
  \<^verbatim>\<open>removeEmptyValuesFromObject\<close> before it is validated, and the first stripped candidate
  that validates is returned as \<open>Valid\<close>; the scan stops there. Index \<open>m\<close> is the
  position of that candidate in the text: every later candidate fails. The second
  conjunct gives the objects handed to the validator, in call order: the stripped
  candidates from the last down to \<open>m\<close>, and none before \<open>m\<close>.
\<close>

theorem schema_returns_first_valid_from_the_end:
  assumes "parsed = parseAllObjects env (responseText (PromptResponse.message response))"
    and "schema this = Some sch"
    and "m < length parsed"
    and "valid (validate env (removeEmptyValuesFromObject env (parsed ! m)) sch)"
    and "\<forall>j. m < j \<and> j < length parsed \<longrightarrow>
           \<not> valid (validate env (removeEmptyValuesFromObject env (parsed ! j)) sch)"
  shows "validateResponse env this memory functions tokenizer response n =
           Inr (Valid (removeEmptyValuesFromObject env (parsed ! m)))
         \<and> scanCandidates env sch parsed (length parsed) None [] =
           (map (removeEmptyValuesFromObject env) (rev (drop m parsed)),
            Returned (removeEmptyValuesFromObject env (parsed ! m)))"
proof -
  have scan: "scanCandidates env sch parsed (length parsed) None [] =
           (map (removeEmptyValuesFromObject env) (rev (drop m parsed)),
            Returned (removeEmptyValuesFromObject env (parsed ! m)))"
    using scanCandidates_first_valid [OF order_refl assms(3) assms(4) assms(5), of None "[]"]
    by simp
  have ne: "parsed \<noteq> []" using assms(3) by auto
  have "validateResponse env this memory functions tokenizer response n =
           Inr (Valid (removeEmptyValuesFromObject env (parsed ! m)))"
    using ne scan assms(2) unfolding assms(1)
    by (simp add: validateResponse_def Let_def)
  then show ?thesis using scan by simp
qed

text \<open>
  Three objects in the text and a schema that requires \<open>id\<close>: the last object fails, the
  middle one is valid once its empty \<open>meta\<close> is stripped, and the first is never
  validated.
\<close>

theorem schema_returns_first_valid_from_the_end_witness:
  \<open>validateResponse sample_env
      (new_JSONResponseValidator (Some \<lparr> required = [''id''], unique = False \<rparr>) None None None)
      () () ()
      \<lparr> status = ''success'', message = StringMessage ''{"id":1} {"id":2,"meta":{}} {"nope":3}'' \<rparr> 3
    = Inr (Valid (JObject [(''id'', JNumber (Finite ''2''))]))
    \<and> scanCandidates sample_env \<lparr> required = [''id''], unique = False \<rparr>
        [JObject [(''id'', JNumber (Finite ''1''))],
         JObject [(''id'', JNumber (Finite ''2'')), (''meta'', JObject [])],
         JObject [(''nope'', JNumber (Finite ''3''))]] 3 None []
      = ([JObject [(''nope'', JNumber (Finite ''3''))], JObject [(''id'', JNumber (Finite ''2''))]],
         Returned (JObject [(''id'', JNumber (Finite ''2''))]))\<close>
proof -
  let ?r = \<open>\<lparr> status = ''success'',
              message = StringMessage ''{"id":1} {"id":2,"meta":{}} {"nope":3}'' \<rparr>\<close>
  let ?s = "\<lparr> required = [''id''], unique = False \<rparr>"
  let ?p = "[JObject [(''id'', JNumber (Finite ''1''))],
         JObject [(''id'', JNumber (Finite ''2'')), (''meta'', JObject [])],
         JObject [(''nope'', JNumber (Finite ''3''))]]"
  have p: "?p = parseAllObjects sample_env (responseText (PromptResponse.message ?r))"
    by (simp add: sample_env_def responseText_def sample_parseAllObjects_def)
  have s: "schema (new_JSONResponseValidator (Some ?s) None None None) = Some ?s"
    by (simp add: new_JSONResponseValidator_def)
  have m: "(1::nat) < length ?p" by simp
  have v: "valid (validate sample_env (removeEmptyValuesFromObject sample_env (?p ! 1)) ?s)"
    by (simp add: sample_env_def sample_validate_def)
  have f: "\<forall>j. 1 < j \<and> j < length ?p \<longrightarrow>
           \<not> valid (validate sample_env (removeEmptyValuesFromObject sample_env (?p ! j)) ?s)"
  proof (intro allI impI)
    fix j :: nat assume "1 < j \<and> j < length ?p"
    then have "j = 2" by simp
    then show "\<not> valid (validate sample_env (removeEmptyValuesFromObject sample_env (?p ! j)) ?s)"
      by (simp add: sample_env_def sample_validate_def)
  qed
  have c: "removeEmptyValuesFromObject sample_env (?p ! 1) = JObject [(''id'', JNumber (Finite ''2''))]"
    by (simp add: sample_env_def)
  have d: "map (removeEmptyValuesFromObject sample_env) (rev (drop 1 ?p))
           = [JObject [(''nope'', JNumber (Finite ''3''))], JObject [(''id'', JNumber (Finite ''2''))]]"
    by (simp add: sample_env_def)
  have l: "length ?p = 3" by simp
  show ?thesis
    by (rule schema_returns_first_valid_from_the_end
              [OF p s m v f, of "()" "()" "()" 3, unfolded c d l])
qed

text \<open>
  C2. When the text holds at least one extracted object and no schema is configured, the
  result is \<open>Valid\<close> with the last extracted object, whatever the earlier ones are.
\<close>

theorem no_schema_returns_last_object:
  assumes "parseAllObjects env (responseText (PromptResponse.message response)) \<noteq> []"
    and "schema this = None"
  shows "validateResponse env this memory functions tokenizer response n =
           Inr (Valid (last (parseAllObjects env
                               (responseText (PromptResponse.message response)))))"
  using assms by (simp add: validateResponse_def Let_def last_conv_nth)

text \<open>The spec's scenario: two objects in the text, no schema; the second one is returned.\<close>

theorem no_schema_returns_last_object_witness:
  \<open>validateResponse sample_env (new_JSONResponseValidator None None None None) () () ()
      \<lparr> status = ''success'', message = StringMessage ''{"a":1} and then {"a":2}'' \<rparr> 3
    = Inr (Valid (JObject [(''a'', JNumber (Finite ''2''))]))\<close>
proof -
  let ?r = \<open>\<lparr> status = ''success'', message = StringMessage ''{"a":1} and then {"a":2}'' \<rparr>\<close>
  have p: "parseAllObjects sample_env (responseText (PromptResponse.message ?r))
           = [JObject [(''a'', JNumber (Finite ''1''))], JObject [(''a'', JNumber (Finite ''2''))]]"
    by (simp add: sample_env_def responseText_def sample_parseAllObjects_def)
  have a: "parseAllObjects sample_env (responseText (PromptResponse.message ?r)) \<noteq> []"
    unfolding p by simp
  have b: "schema (new_JSONResponseValidator None None None None
                     :: sample_schema JSONResponseValidator) = None"
    by (simp add: new_JSONResponseValidator_def)
  show ?thesis
    using no_schema_returns_last_object [OF a b, of "()" "()" "()" 3] unfolding p by simp
qed

text \<open>
  C3. When no object is extracted from the text, the result is \<open>Valid\<close> with \<^verbatim>\<open>null\<close> if
  the message is an object whose content is \<^verbatim>\<open>null\<close>, and otherwise \<open>Invalid\<close> with the
  configured missing-JSON feedback.
\<close>

theorem no_objects_null_or_missing:
  assumes "parseAllObjects env (responseText (PromptResponse.message response)) = []"
  shows "validateResponse env this memory functions tokenizer response n =
           (if \<exists>msg. PromptResponse.message response = ObjectMessage msg
                     \<and> content msg = ContentNull
            then Inr (Valid JNull)
            else Inr (Invalid (missingJsonFeedback this)))"
  using assms
  by (auto simp add: validateResponse_def Let_def hasNullContent_def split: message.splits)

text \<open>A message with null content, and the spec's scenario \<^verbatim>\<open>no json here\<close>.\<close>

theorem no_objects_null_or_missing_witness:
  \<open>validateResponse sample_env (new_JSONResponseValidator None None None None) () () ()
      \<lparr> status = ''success'',
        message = ObjectMessage \<lparr> role = ''assistant'', content = ContentNull \<rparr> \<rparr> 3
    = Inr (Valid JNull)
    \<and> validateResponse sample_env (new_JSONResponseValidator None None None None) () () ()
      \<lparr> status = ''success'', message = StringMessage ''no json here'' \<rparr> 3
    = Inr (Invalid
        ''No valid JSON objects were found in the response. Return a valid JSON object.'')\<close>
proof -
  let ?v = "new_JSONResponseValidator None None None None :: sample_schema JSONResponseValidator"
  let ?r1 = \<open>\<lparr> status = ''success'',
        message = ObjectMessage \<lparr> role = ''assistant'', content = ContentNull \<rparr> \<rparr>\<close>
  let ?r2 = \<open>\<lparr> status = ''success'', message = StringMessage ''no json here'' \<rparr>\<close>
  have a: "parseAllObjects sample_env (responseText (PromptResponse.message ?r1)) = []"
    by (simp add: sample_env_def responseText_def sample_parseAllObjects_def)
  have b: "parseAllObjects sample_env (responseText (PromptResponse.message ?r2)) = []"
    by (simp add: sample_env_def responseText_def sample_parseAllObjects_def)
  show ?thesis
    using no_objects_null_or_missing [OF a, of ?v "()" "()" "()" 3]
          no_objects_null_or_missing [OF b, of ?v "()" "()" "()" 3]
    by (simp add: new_JSONResponseValidator_def)
qed

text \<open>
  When no candidate validates, the result is computed from the errors of the last object
  of the text alone: an exception of \<^verbatim>\<open>getErrorFix\<close> on one of them, or else \<open>Invalid\<close>
  with the header, a newline and the lines of these errors joined by newlines.
\<close>

lemma all_invalid_feedback_from_last:
  assumes "parsed = parseAllObjects env (responseText (PromptResponse.message response))"
    and "parsed \<noteq> []"
    and "schema this = Some sch"
    and "\<forall>j<length parsed.
           \<not> valid (validate env (removeEmptyValuesFromObject env (parsed ! j)) sch)"
  shows "validateResponse env this memory functions tokenizer response n =
           (case mapErrorFix (errors (validate env
                                (removeEmptyValuesFromObject env (last parsed)) sch)) of
              Inl x \<Rightarrow> Inl x
            | Inr lines \<Rightarrow>
                Inr (Invalid (errorFeedback this @ [CHR 0x0A] @ join [CHR 0x0A] lines)))"
proof -
  have scan: "snd (scanCandidates env sch parsed (length parsed) None []) =
      FellThrough (Some (errors (validate env
                     (removeEmptyValuesFromObject env (parsed ! (length parsed - 1))) sch)))"
    using scanCandidates_none_valid [OF order_refl assms(4), of None "[]"] assms(2)
    by simp
  show ?thesis
    using assms(2,3) scan unfolding assms(1)
    by (simp add: validateResponse_def Let_def last_conv_nth)
qed

text \<open>
  C4. The claim has \<^verbatim>\<open>validateResponse\<close> return \<open>Invalid\<close> with one line per error of the
  last object whenever no candidate validates. Evaluated on a text whose only object
  lacks the required \<open>id\<close> and repeats an item of \<open>tags\<close>: the validator reports a
  \<^verbatim>\<open>required\<close> and a \<^verbatim>\<open>uniqueItems\<close> error, the second without an argument, and the call
  raises a \<^verbatim>\<open>TypeError\<close> where the claim has header, \<^verbatim>\<open>add the "id" property to "instance"\<close>
  and \<^verbatim>\<open>remove all duplicate items from "instance.tags"\<close>.
\<close>

theorem feedback_for_last_candidate_raises:
  \<open>errors (sample_validate (JObject [(''tags'', JArray [JString ''a'', JString ''a''])])
             \<lparr> required = [''id''], unique = True \<rparr>)
     = [\<lparr> name = ''required'', property = ''instance'',
           message = ''requires property "id"'', argument = JString ''id'' \<rparr>,
        \<lparr> name = ''uniqueItems'', property = ''instance.tags'',
           message = ''contains duplicate item'', argument = JUndefined \<rparr>]
   \<and> validateResponse sample_env
       (new_JSONResponseValidator (Some \<lparr> required = [''id''], unique = True \<rparr>) None None None)
       () () ()
       \<lparr> status = ''success'', message = StringMessage ''{"tags":["a","a"]}'' \<rparr> 3
     = Inl TypeError\<close>
  by (simp add: getErrorFix_def argumentString_def errorFixLine_def validateResponse_def
        sample_env_def new_JSONResponseValidator_def responseText_def
        sample_parseAllObjects_def sample_validate_def)

text \<open>
  If no descriptor of the validator lacks its argument and every \<^verbatim>\<open>enum\<close> message has a
  colon, \<^verbatim>\<open>validateResponse\<close> returns a \<open>Validation\<close>.
\<close>

lemma validateResponse_returns:
  assumes "\<And>obj sch e. e \<in> set (errors (validate env obj sch)) \<Longrightarrow>
             argument e \<noteq> JUndefined
             \<and> (name e = ''enum'' \<longrightarrow> CHR '':'' \<in> set (ValidationError.message e))"
  shows "\<exists>v. validateResponse env this memory functions tokenizer response n = Inr v"
proof -
  let ?parsed = "parseAllObjects env (responseText (PromptResponse.message response))"
  show ?thesis
  proof (cases "?parsed = []")
    case True
    then show ?thesis by (simp add: validateResponse_def Let_def)
  next
    case ne: False
    show ?thesis
    proof (cases "schema this")
      case None
      then show ?thesis using ne by (simp add: validateResponse_def Let_def)
    next
      case (Some sch)
      show ?thesis
      proof (cases "snd (scanCandidates env sch ?parsed (length ?parsed) None [])")
        case (Returned obj)
        then show ?thesis using ne Some by (simp add: validateResponse_def Let_def)
      next
        case (FellThrough r)
        from scanCandidates_fell_through [OF this] scanCandidates_not_undefined [of env sch ?parsed "length ?parsed" "[]"] FellThrough ne
        obtain j where r: "r = Some (errors (validate env
                                  (removeEmptyValuesFromObject env (?parsed ! j)) sch))"
          by auto
        let ?es = "errors (validate env (removeEmptyValuesFromObject env (?parsed ! j)) sch)"
        have "\<forall>e \<in> set ?es. getErrorFix e \<noteq> Inl TypeError"
          using assms by (auto simp add: getErrorFix_raises_iff)
        then have "mapErrorFix ?es \<noteq> Inl TypeError"
          by (simp add: mapErrorFix_raises)
        then obtain lines where "mapErrorFix ?es = Inr lines"
          by (cases "mapErrorFix ?es") (auto simp add: js_error_unique)
        then show ?thesis
          using ne Some FellThrough r by (simp add: validateResponse_def Let_def)
      qed
    qed
  qed
qed

text \<open>
  C5. The claim has \<^verbatim>\<open>validateResponse\<close> never raise. Evaluated on a \<^verbatim>\<open>uniqueItems\<close>
  descriptor, which the schema library builds without an argument: \<^verbatim>\<open>getErrorFix\<close> calls
  \<^verbatim>\<open>toString\<close> on \<^verbatim>\<open>undefined\<close> before it reaches its \<^verbatim>\<open>uniqueItems\<close> case, and the
  \<^verbatim>\<open>TypeError\<close> leaves \<^verbatim>\<open>validateResponse\<close>.
\<close>

theorem uniqueItems_descriptor_raises:
  \<open>getErrorFix \<lparr> name = ''uniqueItems'', property = ''instance.tags'',
                  message = ''contains duplicate item'', argument = JUndefined \<rparr>
     = Inl TypeError
   \<and> validateResponse sample_env
       (new_JSONResponseValidator (Some \<lparr> required = [], unique = True \<rparr>) None None None)
       () () ()
       \<lparr> status = ''success'', message = StringMessage ''{"tags":["a","a"]}'' \<rparr> 3
     = Inl TypeError\<close>
  by (simp add: getErrorFix_def argumentString_def validateResponse_def sample_env_def
        new_JSONResponseValidator_def responseText_def sample_parseAllObjects_def
        sample_validate_def)

text \<open>
  C6. The claim has the \<^verbatim>\<open>enum\<close> line end with the text of the message after its first
  colon, trimmed. Evaluated on the message the schema library writes for the enumerated
  values \<^verbatim>\<open>10:30\<close> and \<^verbatim>\<open>11:45\<close>: the line ends with \<^verbatim>\<open>10\<close>, the text up to the second
  colon, where the claim has \<^verbatim>\<open>10:30,11:45\<close>.
\<close>

theorem enum_values_cut_at_second_colon:
  \<open>getErrorFix \<lparr> name = ''enum'', property = ''instance.time'',
                  message = ''is not one of enum values: 10:30,11:45'',
                  argument = JArray [JString ''10:30'', JString ''11:45''] \<rparr>
     = Inr ''change the "instance.time" property to be one of these values: 10''\<close>
  by (simp add: getErrorFix_def argumentString_def errorFixLine_def at_index_def trim_def
        isWhiteSpace_def)




text \<open>
  C8. A call leaves the validator object as it found it, and a second call, made on the
  object as the first call left it, returns what the first returned whenever the two
  messages have the same text and agree on being an object with \<^verbatim>\<open>null\<close> content,
  whatever the memory, the functions, the tokenizer, the status of the response and the
  remaining attempts of the two calls are. This holds although the \<^verbatim>\<open>Validator\<close> instance
  has state that \<^verbatim>\<open>validate\<close> changes during a call: each call creates its own.
\<close>

theorem second_call_same_result:
  assumes "responseText (PromptResponse.message response1) =
           responseText (PromptResponse.message response2)"
    and "hasNullContent (PromptResponse.message response1) =
         hasNullContent (PromptResponse.message response2)"
  shows "snd (validateResponse_st env this memory1 functions1 tokenizer1 response1 n1) = this
       \<and> fst (validateResponse_st env
                (snd (validateResponse_st env this memory1 functions1 tokenizer1 response1 n1))
                memory2 functions2 tokenizer2 response2 n2)
         = fst (validateResponse_st env this memory1 functions1 tokenizer1 response1 n1)"
proof -
  have unchanged: "snd (validateResponse_st env this memory1 functions1 tokenizer1 response1 n1) = this"
    by (simp add: validateResponse_st_def Let_def
          split: option.splits loop_exit.splits sum.splits)
  have same: "fst (validateResponse_st env this memory2 functions2 tokenizer2 response2 n2)
         = fst (validateResponse_st env this memory1 functions1 tokenizer1 response1 n1)"
    unfolding validateResponse_st_def Let_def assms by (rule refl)
  show ?thesis unfolding unchanged using same by simp
qed

text \<open>
  Two calls with the same text, once as a string and once as the content of a message
  object, on the sample instance with state. The last two conjuncts run the loop on a new
  instance and on the instance as that run leaves it: the second run fails where the
  first succeeds, so the instance of one call must not reach the next.
\<close>

theorem second_call_same_result_witness:
  \<open>snd (validateResponse_st sample_instance_env
          (new_JSONResponseValidator (Some \<lparr> required = [''id''], unique = False \<rparr>)
             None None None)
          () () ()
          \<lparr> status = ''success'', message = StringMessage ''{"id":1} {"kind":"x"}'' \<rparr> 3)
     = new_JSONResponseValidator (Some \<lparr> required = [''id''], unique = False \<rparr>) None None None
   \<and> fst (validateResponse_st sample_instance_env
          (snd (validateResponse_st sample_instance_env
                  (new_JSONResponseValidator (Some \<lparr> required = [''id''], unique = False \<rparr>)
                     None None None)
                  () () ()
                  \<lparr> status = ''success'',
                    message = StringMessage ''{"id":1} {"kind":"x"}'' \<rparr> 3))
          (1::nat) True ''tokenizer''
          \<lparr> status = ''error'',
            message = ObjectMessage \<lparr> role = ''assistant'',
                        content = ContentString ''{"id":1} {"kind":"x"}'' \<rparr> \<rparr> 0)
     = fst (validateResponse_st sample_instance_env
          (new_JSONResponseValidator (Some \<lparr> required = [''id''], unique = False \<rparr>)
             None None None)
          () () ()
          \<lparr> status = ''success'', message = StringMessage ''{"id":1} {"kind":"x"}'' \<rparr> 3)
   \<and> fst (validateResponse_st sample_instance_env
          (new_JSONResponseValidator (Some \<lparr> required = [''id''], unique = False \<rparr>)
             None None None)
          () () ()
          \<lparr> status = ''success'', message = StringMessage ''{"id":1} {"kind":"x"}'' \<rparr> 3)
     = Inr (Valid (JObject [(''id'', JNumber (Finite ''1''))]))
   \<and> scanCandidates_st sample_instance_env \<lparr> required = [''id''], unique = False \<rparr>
        [JObject [(''id'', JNumber (Finite ''1''))], JObject [(''kind'', JString ''x'')]] 2 None []
     = (Returned (JObject [(''id'', JNumber (Finite ''1''))]),
        [JObject [(''id'', JNumber (Finite ''1''))], JObject [(''kind'', JString ''x'')]])
   \<and> fst (scanCandidates_st sample_instance_env \<lparr> required = [''id''], unique = False \<rparr>
        [JObject [(''id'', JNumber (Finite ''1''))], JObject [(''kind'', JString ''x'')]] 2 None
        [JObject [(''id'', JNumber (Finite ''1''))], JObject [(''kind'', JString ''x'')]])
     = FellThrough (Some [\<lparr> name = ''seen'', property = ''instance'',
                             message = ''was validated before'', argument = JBoolean True \<rparr>])\<close>
proof -
  let ?v = "new_JSONResponseValidator (Some \<lparr> required = [''id''], unique = False \<rparr>)
              None None None"
  let ?r1 = \<open>\<lparr> status = ''success'', message = StringMessage ''{"id":1} {"kind":"x"}'' \<rparr>\<close>
  let ?r2 = \<open>\<lparr> status = ''error'',
            message = ObjectMessage \<lparr> role = ''assistant'',
                        content = ContentString ''{"id":1} {"kind":"x"}'' \<rparr> \<rparr>\<close>
  have a: "responseText (PromptResponse.message ?r1) = responseText (PromptResponse.message ?r2)"
    by (simp add: responseText_def)
  have b: "hasNullContent (PromptResponse.message ?r1)
           = hasNullContent (PromptResponse.message ?r2)"
    by (simp add: hasNullContent_def)
  note calls = second_call_same_result [OF a b, of sample_instance_env ?v "()" "()" "()" 3
                  "1::nat" True "''tokenizer''" 0]
  have first: "fst (validateResponse_st sample_instance_env ?v () () () ?r1 3)
     = Inr (Valid (JObject [(''id'', JNumber (Finite ''1''))]))"
    by (simp add: validateResponse_st_def sample_instance_env_def responseText_def
          sample_parseAllObjects_def new_JSONResponseValidator_def sample_instance_validate_def
          sample_validate_def Let_def)
  have fresh: "scanCandidates_st sample_instance_env \<lparr> required = [''id''], unique = False \<rparr>
        [JObject [(''id'', JNumber (Finite ''1''))], JObject [(''kind'', JString ''x'')]] 2 None []
     = (Returned (JObject [(''id'', JNumber (Finite ''1''))]),
        [JObject [(''id'', JNumber (Finite ''1''))], JObject [(''kind'', JString ''x'')]])"
    by (simp add: numeral_2_eq_2 sample_instance_env_def sample_instance_validate_def
          sample_validate_def Let_def)
  have used: "fst (scanCandidates_st sample_instance_env \<lparr> required = [''id''], unique = False \<rparr>
        [JObject [(''id'', JNumber (Finite ''1''))], JObject [(''kind'', JString ''x'')]] 2 None
        [JObject [(''id'', JNumber (Finite ''1''))], JObject [(''kind'', JString ''x'')]])
     = FellThrough (Some [\<lparr> name = ''seen'', property = ''instance'',
                             message = ''was validated before'', argument = JBoolean True \<rparr>])"
    by (simp add: numeral_2_eq_2 sample_instance_env_def sample_instance_validate_def
          sample_validate_def Let_def)
  show ?thesis
    by (intro conjI calls [THEN conjunct1] calls [THEN conjunct2] first fresh used)
qed

text \<open>
  C9. The result is the same for any two values of \<^verbatim>\<open>remaining_attempts\<close>: the parameter
  takes no part in the decision.
\<close>

theorem remaining_attempts_ignored:
  "validateResponse env this memory functions tokenizer response n1 =
   validateResponse env this memory functions tokenizer response n2"
  by (simp add: validateResponse_def)

text \<open>
  C10. For an object message whose content is absent, the text is the empty string and,
  the empty string holding no object, the result is \<open>Invalid\<close> with the missing-JSON
  feedback and not \<open>Valid\<close> with \<^verbatim>\<open>null\<close>; the same message with content \<^verbatim>\<open>null\<close> gives
  \<open>Valid\<close> with \<^verbatim>\<open>null\<close>.
\<close>

theorem undefined_content_is_missing_json:
  assumes "parseAllObjects env [] = []"
    and "PromptResponse.message response = ObjectMessage msg"
    and "content msg = ContentUndefined"
  shows "responseText (PromptResponse.message response) = []
         \<and> validateResponse env this memory functions tokenizer response n =
             Inr (Invalid (missingJsonFeedback this))
         \<and> validateResponse env this memory functions tokenizer response n \<noteq> Inr (Valid JNull)
         \<and> validateResponse env this memory functions tokenizer
             (response \<lparr> message := ObjectMessage (msg \<lparr> content := ContentNull \<rparr>) \<rparr>) n =
             Inr (Valid JNull)"
  using assms
  by (simp add: validateResponse_def Let_def responseText_def hasNullContent_def)

text \<open>An assistant message without content, and the same message with null content.\<close>

theorem undefined_content_is_missing_json_witness:
  \<open>responseText (PromptResponse.message
       \<lparr> status = ''success'',
         message = ObjectMessage \<lparr> role = ''assistant'', content = ContentUndefined \<rparr> \<rparr>) = []
    \<and> validateResponse sample_env (new_JSONResponseValidator None None None None) () () ()
       \<lparr> status = ''success'',
         message = ObjectMessage \<lparr> role = ''assistant'', content = ContentUndefined \<rparr> \<rparr> 3
      = Inr (Invalid
          ''No valid JSON objects were found in the response. Return a valid JSON object.'')
    \<and> validateResponse sample_env (new_JSONResponseValidator None None None None) () () ()
       \<lparr> status = ''success'',
         message = ObjectMessage \<lparr> role = ''assistant'', content = ContentNull \<rparr> \<rparr> 3
      = Inr (Valid JNull)\<close>
proof -
  let ?v = "new_JSONResponseValidator None None None None :: sample_schema JSONResponseValidator"
  let ?m = "\<lparr> role = ''assistant'', content = ContentUndefined \<rparr>"
  let ?r = "\<lparr> status = ''success'', message = ObjectMessage ?m \<rparr>"
  have a: "parseAllObjects sample_env [] = []"
    by (simp add: sample_env_def sample_parseAllObjects_def)
  have b: "PromptResponse.message ?r = ObjectMessage ?m" by simp
  have c: "content ?m = ContentUndefined" by simp
  show ?thesis
    using undefined_content_is_missing_json [OF a b c, of ?v "()" "()" "()" 3]
    by (simp add: new_JSONResponseValidator_def)
qed

end
